theory Spec2Isabelle
  imports Complex_Main
begin

section \<open>Numbers, viewport and preview canvas\<close>

text \<open>
  A JavaScript \<^verbatim>\<open>number\<close> is modelled as a real: the arithmetic of the program is
  read as exact arithmetic, without rounding, infinities or NaN. \<^verbatim>\<open>Math.max\<close>,
  \<^verbatim>\<open>Math.min\<close> and \<^verbatim>\<open>Math.sqrt\<close> are \<open>max\<close>, \<open>min\<close> and \<open>sqrt\<close>. A quotient
  whose divisor is zero is not a number in JavaScript, while HOL gives it the value 0;
  every statement about the coordinate mapping therefore takes the preview canvas to
  have positive width and height, which is what \<open>CANVAS_DIMENSIONS\<close> provides.
\<close>

record window =
  innerWidth :: real
  innerHeight :: real

text \<open>
  The preview canvas element: its \<^verbatim>\<open>width\<close> and \<^verbatim>\<open>height\<close> attributes and whether
  \<^verbatim>\<open>getContext('2d')\<close> yields a context.
\<close>

record canvas =
  width :: real
  height :: real
  context2d :: bool

text \<open>
  \<^verbatim>\<open>CANVAS_DIMENSIONS\<close> is computed once, from the window as it is when the module is
  loaded; the canvas element is rendered with these attributes.
\<close>

definition CANVAS_DIMENSIONS :: "window \<Rightarrow> real \<times> real" where
  "CANVAS_DIMENSIONS w =
     (if innerWidth w < 768 then 320 else 640, if innerWidth w < 768 then 480 else 480)"

definition previewCanvas :: "window \<Rightarrow> canvas" where
  "previewCanvas w =
     \<lparr>width = fst (CANVAS_DIMENSIONS w), height = snd (CANVAS_DIMENSIONS w), context2d = True\<rparr>"

section \<open>Coordinate mapping in the detection callback\<close>

text \<open>A landmark is its normalized \<open>(x, y)\<close>; the depth coordinate is never read.\<close>

type_synonym landmark = "real \<times> real"

definition scaleX :: "window \<Rightarrow> canvas \<Rightarrow> real" where
  "scaleX w c = (innerWidth w * 2.0) / width c"

definition scaleY :: "window \<Rightarrow> canvas \<Rightarrow> real" where
  "scaleY w c = (innerHeight w * 2.0) / height c"

definition offsetX :: "window \<Rightarrow> real" where
  "offsetX w = innerWidth w * 0.5"

definition offsetY :: "window \<Rightarrow> real" where
  "offsetY w = innerHeight w * 0.5"

definition mirroredX :: "window \<Rightarrow> canvas \<Rightarrow> landmark \<Rightarrow> real" where
  "mirroredX w c handPoint =
     innerWidth w - (fst handPoint * width c * scaleX w c - offsetX w)"

text \<open>The two coordinates handed to \<^verbatim>\<open>onHandUpdate\<close>.\<close>

definition mappedX :: "window \<Rightarrow> canvas \<Rightarrow> landmark \<Rightarrow> real" where
  "mappedX w c handPoint = max 0 (min (innerWidth w) (mirroredX w c handPoint))"

definition mappedY :: "window \<Rightarrow> canvas \<Rightarrow> landmark \<Rightarrow> real" where
  "mappedY w c handPoint =
     max 0 (min (innerHeight w) (snd handPoint * height c * scaleY w c - offsetY w))"

text \<open>
  The landmark that stands for the hand: the palm (9) on a narrow window, the index
  fingertip (8) otherwise. Reading past the end of a JavaScript array gives
  \<^verbatim>\<open>undefined\<close>, here \<open>None\<close>.
\<close>

definition handPointOf :: "window \<Rightarrow> landmark list \<Rightarrow> landmark option" where
  "handPointOf w landmarks =
     (let i = (if innerWidth w < 768 then 9 else 8)
      in if i < length landmarks then Some (landmarks ! i) else None)"

text \<open>
  One call of the \<^verbatim>\<open>forEach\<close> callback over \<^verbatim>\<open>multiHandLandmarks\<close>: the calls of
  \<^verbatim>\<open>onHandUpdate(index, x, y)\<close> it makes (none when the hand point is missing). The
  drawing on the preview canvas has no effect on them and is left out.
\<close>

type_synonym handUpdate = "real \<times> real \<times> real"

definition forHand :: "window \<Rightarrow> canvas \<Rightarrow> nat \<Rightarrow> landmark list \<Rightarrow> handUpdate list" where
  "forHand w c index landmarks =
     (case handPointOf w landmarks of
        None \<Rightarrow> []
      | Some handPoint \<Rightarrow> [(real index, mappedX w c handPoint, mappedY w c handPoint)])"

text \<open>The detector's result: \<^verbatim>\<open>multiHandLandmarks\<close> may be absent.\<close>

record results =
  multiHandLandmarks :: "landmark list list option"

definition handUpdates :: "window \<Rightarrow> canvas \<Rightarrow> results \<Rightarrow> handUpdate list" where
  "handUpdates w c res =
     (case multiHandLandmarks res of
        None \<Rightarrow> []
      | Some hands \<Rightarrow> concat (map (\<lambda>(index, landmarks). forHand w c index landmarks)
                                 (zip [0 ..< length hands] hands)))"

section \<open>The bodies of the physics world\<close>

text \<open>
  The rigid-body engine is an external library. A body is modelled by its position, its
  velocity, the force and torque accumulated on it, whether it is static, its collision
  filter and its render style. The shapes, the other options the program passes
  (sleeping, friction, restitution, density, chamfer) and the engine's own stepping are
  left out. A vector \<^verbatim>\<open>{x, y}\<close> is a pair.
\<close>

type_synonym vec = "real \<times> real"

text \<open>
  A render colour is a CSS string. The one string the program computes,
  \<^verbatim>\<open>hsl(${hue}, ${saturation}%, ${lightness}%)\<close>, is kept as its three numbers.
\<close>

datatype style = Css string | Hsl real real real

record bodyRender =
  fillStyle :: style
  strokeStyle :: style
  lineWidth :: real
  opacity :: real

record body =
  position :: vec
  velocity :: vec
  force :: vec
  torque :: real
  isStatic :: bool
  category :: nat
  collisionMask :: nat
  render :: "bodyRender option"

text \<open>
  The body factories (\<^verbatim>\<open>Bodies.circle\<close>, \<^verbatim>\<open>Bodies.rectangle\<close>,
  \<^verbatim>\<open>Bodies.fromVertices\<close>) give a body at rest at the given position, with the given
  options.
\<close>

definition newBody :: "vec \<Rightarrow> bool \<Rightarrow> nat \<Rightarrow> nat \<Rightarrow> bodyRender \<Rightarrow> body" where
  "newBody pos static cat msk r =
     \<lparr>position = pos, velocity = (0, 0), force = (0, 0), torque = 0, isStatic = static,
      category = cat, collisionMask = msk, render = Some r\<rparr>"

text \<open>
  The three engine calls of \<^verbatim>\<open>updateHandPosition\<close>, by their documented effect:
  \<^verbatim>\<open>Body.applyForce\<close> adds to the accumulated force (and to the torque, by the offset
  of the point of application), \<^verbatim>\<open>Body.setVelocity\<close> and \<^verbatim>\<open>Body.setPosition\<close>
  overwrite the velocity and the position.
\<close>

definition Body_applyForce :: "body \<Rightarrow> vec \<Rightarrow> vec \<Rightarrow> body" where
  "Body_applyForce b point f =
     b\<lparr>force := (fst (force b) + fst f, snd (force b) + snd f),
       torque := torque b + ((fst point - fst (position b)) * snd f
                             - (snd point - snd (position b)) * fst f)\<rparr>"

definition Body_setVelocity :: "body \<Rightarrow> vec \<Rightarrow> body" where
  "Body_setVelocity b v = b\<lparr>velocity := v\<rparr>"

definition Body_setPosition :: "body \<Rightarrow> vec \<Rightarrow> body" where
  "Body_setPosition b p = b\<lparr>position := p\<rparr>"

section \<open>The simulation object\<close>

text \<open>
  Bodies are JavaScript objects, shared by reference between the world, the particle
  array and the two hand fields. The model keeps them in a store indexed by reference;
  the world and the fields hold references. \<open>fresh\<close> is the next unused reference.
\<close>

record simulation =
  heap :: "nat \<Rightarrow> body"
  fresh :: nat
  world :: "nat list"
  particles :: "nat list"
  draggableObjects :: "nat list"
  leftHandBody :: nat
  rightHandBody :: nat
  particleOpacity :: real
  fadeInStartTime :: real
  fadeInPending :: bool
  running :: bool

text \<open>
  \<^verbatim>\<open>maxVelocity\<close> is a private field, set to 15 by its initializer and assigned nowhere
  else.
\<close>

definition maxVelocity :: real where
  "maxVelocity = 15"

definition handCategory :: nat where
  "handCategory = 0x0002"

definition defaultCategory :: nat where
  "defaultCategory = 0x0001"

definition alloc :: "body \<Rightarrow> simulation \<Rightarrow> nat \<times> simulation" where
  "alloc b s = (fresh s, s\<lparr>heap := (heap s)(fresh s := b), fresh := Suc (fresh s)\<rparr>)"

fun allocAll :: "body list \<Rightarrow> simulation \<Rightarrow> nat list \<times> simulation" where
  "allocAll [] s = ([], s)"
| "allocAll (b # bs) s =
     (case alloc b s of (r, s1) \<Rightarrow> (case allocAll bs s1 of (rs, s2) \<Rightarrow> (r # rs, s2)))"

text \<open>\<^verbatim>\<open>Composite.add(this.engine.world, ...)\<close>.\<close>

definition Composite_add :: "nat list \<Rightarrow> simulation \<Rightarrow> simulation" where
  "Composite_add refs s = s\<lparr>world := world s @ refs\<rparr>"

text \<open>A \<^verbatim>\<open>forEach\<close> over an array of bodies that changes each body in place.\<close>

definition forEachBody :: "(body \<Rightarrow> body) \<Rightarrow> nat list \<Rightarrow> (nat \<Rightarrow> body) \<Rightarrow> (nat \<Rightarrow> body)" where
  "forEachBody f refs h = fold (\<lambda>r h'. h'(r := f (h' r))) refs h"

subsection \<open>Construction\<close>

definition leftHand :: body where
  "leftHand = newBody (0, 0) True handCategory 0x0001
     \<lparr>fillStyle = Css ''rgba(0, 255, 0, 0.3)'', strokeStyle = Css ''#00FF00'', lineWidth = 2,
      opacity = 1\<rparr>"

definition rightHand :: "window \<Rightarrow> body" where
  "rightHand w = newBody (0, 0) True handCategory 0x0001
     \<lparr>fillStyle = (if innerWidth w < 768 then Css ''transparent'' else Css ''rgba(0, 255, 0, 0.3)''),
      strokeStyle = (if innerWidth w < 768 then Css ''transparent'' else Css ''#00FF00''),
      lineWidth = (if innerWidth w < 768 then 0 else 2),
      opacity = 1\<rparr>"

text \<open>
  The block of the constructor that creates the two hand bodies and adds them to the
  world.
\<close>

definition createHandBodies :: "window \<Rightarrow> simulation \<Rightarrow> simulation" where
  "createHandBodies w s =
     (case alloc leftHand s of (l, s1) \<Rightarrow>
      case alloc (rightHand w) s1 of (r, s2) \<Rightarrow>
        Composite_add [l, r] (s2\<lparr>leftHandBody := l, rightHandBody := r\<rparr>))"

text \<open>
  The walls are created with \<^verbatim>\<open>{ isStatic: true }\<close> only; their collision filter and
  render style are the engine's defaults (for a static body given no fill style, a stroke
  of width 1).
\<close>

definition wallRender :: bodyRender where
  "wallRender = \<lparr>fillStyle = Css ''#14151f'', strokeStyle = Css ''#555'', lineWidth = 1, opacity = 1\<rparr>"

definition wall :: "vec \<Rightarrow> body" where
  "wall pos = newBody pos True defaultCategory 0xFFFFFFFF wallRender"

definition createBoundaries :: "window \<Rightarrow> simulation \<Rightarrow> simulation" where
  "createBoundaries w s =
     (let walls =
        [wall (innerWidth w / 2, innerHeight w + 50),
         wall (- 50, innerHeight w / 2),
         wall (innerWidth w + 50, innerHeight w / 2)]
      in case allocAll walls s of (refs, s1) \<Rightarrow> Composite_add refs s1)"

definition particleRender :: bodyRender where
  "particleRender =
     \<lparr>fillStyle = Css ''transparent'', strokeStyle = Css ''#ffffff'', lineWidth = 2, opacity = 0\<rparr>"

definition particleAt :: "vec \<Rightarrow> body" where
  "particleAt pos = newBody pos False 0x0001 0x0003 particleRender"

text \<open>
  \<^verbatim>\<open>Math.random()\<close> is a stream of numbers of \<open>[0, 1)\<close> given from outside, read by the
  number of the draw: one draw for each particle of the grid, two for each of the
  scattered ones.
\<close>

definition gridParticle :: "window \<Rightarrow> nat \<Rightarrow> real \<Rightarrow> nat \<Rightarrow> nat \<Rightarrow> real \<Rightarrow> body" where
  "gridParticle w cols spacing row col random =
     (let x = (innerWidth w / 2 - (real cols * spacing) / 2) + real col * spacing;
          y = 50 + real row * spacing;
          jitter = random * 2 - 1
      in particleAt (x + jitter, y + jitter))"

definition scatteredParticle :: "window \<Rightarrow> real \<Rightarrow> real \<Rightarrow> body" where
  "scatteredParticle w random1 random2 =
     particleAt (innerWidth w / 2 + random1 * 300 - 150, 50 + random2 * 100)"

text \<open>The bodies the two loops of \<^verbatim>\<open>createParticles\<close> create, in the order of creation.\<close>

definition particleBodies :: "window \<Rightarrow> (nat \<Rightarrow> real) \<Rightarrow> body list" where
  "particleBodies w random =
     (let isMobile = innerWidth w < 768;
          rows = (if isMobile then 12 else 30);
          cols = (if isMobile then 15 else 40);
          spacing = 45;
          grid = concat (map (\<lambda>row. map (\<lambda>col.
                   gridParticle w cols spacing row col (random (row * cols + col))) [0 ..< cols])
                   [0 ..< rows]);
          scattered = map (\<lambda>i. scatteredParticle w (random (rows * cols + 2 * i))
                                   (random (rows * cols + 2 * i + 1)))
                        [0 ..< (if isMobile then 50 else 200)]
      in grid @ scattered)"

text \<open>
  Each new body is pushed on \<^verbatim>\<open>this.particles\<close>; the whole array is then added to the
  world.
\<close>

definition createParticles :: "window \<Rightarrow> (nat \<Rightarrow> real) \<Rightarrow> simulation \<Rightarrow> simulation" where
  "createParticles w random s =
     (case allocAll (particleBodies w random) s of
        (refs, s1) \<Rightarrow> Composite_add (particles s1 @ refs) (s1\<lparr>particles := particles s1 @ refs\<rparr>))"

text \<open>How many particles \<^verbatim>\<open>createParticles\<close> creates: the grid and the scattered ones.\<close>

definition particleCount :: "window \<Rightarrow> nat" where
  "particleCount w = (if innerWidth w < 768 then 12 * 15 + 50 else 30 * 40 + 200)"

definition createDraggableObjects :: "simulation \<Rightarrow> simulation" where
  "createDraggableObjects s = s"

definition animateFadeIn :: "real \<Rightarrow> simulation \<Rightarrow> simulation" where
  "animateFadeIn now s =
     (let elapsed = now - fadeInStartTime s;
          duration = 4000;
          newOpacity = min 1 (elapsed / duration)
      in s\<lparr>particleOpacity := newOpacity,
           heap := forEachBody
             (\<lambda>particle. case render particle of
                             None \<Rightarrow> particle
                           | Some r \<Rightarrow> particle\<lparr>render := Some (r\<lparr>opacity := newOpacity\<rparr>)\<rparr>)
             (particles s) (heap s),
           fadeInPending := (newOpacity < 1)\<rparr>)"

text \<open>
  The state before the constructor has run. The store holds a placeholder at every
  reference not yet handed out.
\<close>

definition emptySimulation :: simulation where
  "emptySimulation =
     \<lparr>heap = (\<lambda>_. newBody (0, 0) True 0 0 wallRender), fresh = 0, world = [], particles = [],
      draggableObjects = [], leftHandBody = 0, rightHandBody = 0, particleOpacity = 0,
      fadeInStartTime = 0, fadeInPending = False, running = False\<rparr>"

text \<open>
  The constructor, for the window, the random stream and the two readings of
  \<^verbatim>\<open>Date.now()\<close> (at the start of the fade-in and inside its first frame). The engine,
  the renderer, the mouse constraint and the resize handler own no body and are not
  modelled beyond \<open>running\<close>.
\<close>

definition LiquidSimulation :: "window \<Rightarrow> (nat \<Rightarrow> real) \<Rightarrow> real \<Rightarrow> real \<Rightarrow> simulation" where
  "LiquidSimulation w random now1 now2 =
     (let s1 = createHandBodies w emptySimulation;
          s2 = createBoundaries w s1;
          s3 = createParticles w random s2;
          s4 = createDraggableObjects s3;
          s5 = s4\<lparr>running := True, fadeInStartTime := now1\<rparr>
      in animateFadeIn now2 s5)"

subsection \<open>Recolouring by speed\<close>

text \<open>
  The body of the \<^verbatim>\<open>forEach\<close> callback of \<^verbatim>\<open>updateParticleColors\<close>. Its local
  \<^verbatim>\<open>velocity\<close> is the speed and is named \<open>speed\<close> here, since \<open>velocity\<close> is the
  body's field.
\<close>

definition speed :: "body \<Rightarrow> real" where
  "speed particle =
     sqrt (fst (velocity particle) * fst (velocity particle)
           + snd (velocity particle) * snd (velocity particle))"

definition normalizedVelocity :: "body \<Rightarrow> real" where
  "normalizedVelocity particle = min (speed particle / maxVelocity) 1"

definition hue :: "body \<Rightarrow> real" where
  "hue particle = (1 - normalizedVelocity particle) * 180"

definition saturation :: real where
  "saturation = 100"

definition lightness :: "body \<Rightarrow> real" where
  "lightness particle = 50 + normalizedVelocity particle * 20"

definition recolor :: "body \<Rightarrow> body" where
  "recolor particle =
     (case render particle of
        None \<Rightarrow> particle
      | Some r \<Rightarrow>
          particle\<lparr>render :=
            Some (r\<lparr>strokeStyle := Hsl (hue particle) saturation (lightness particle)\<rparr>)\<rparr>)"

definition updateParticleColors :: "simulation \<Rightarrow> simulation" where
  "updateParticleColors s = s\<lparr>heap := forEachBody recolor (particles s) (heap s)\<rparr>"

subsection \<open>Moving a hand proxy\<close>

text \<open>
  \<^verbatim>\<open>updateHandPosition(handIndex, x, y)\<close>, with the two numbers \<^verbatim>\<open>Math.random()\<close>
  returns in it.
\<close>

definition updateHandPosition :: "real \<Rightarrow> real \<Rightarrow> real \<Rightarrow> real \<times> real \<Rightarrow> simulation \<Rightarrow> simulation" where
  "updateHandPosition handIndex x y random s =
     (let handBody = (if handIndex = 0 then leftHandBody s else rightHandBody s);
          h1 = (heap s)(handBody :=
                 Body_applyForce (heap s handBody) (position (heap s handBody))
                   ((fst random - 0.5) * 0.0001, (snd random - 0.5) * 0.0001));
          currentPos = position (h1 handBody);
          dx = x - fst currentPos;
          dy = y - snd currentPos;
          h2 = h1(handBody := Body_setVelocity (h1 handBody) (dx * 1.2, dy * 1.2));
          h3 = h2(handBody := Body_setPosition (h2 handBody) (x, y))
      in s\<lparr>heap := h3\<rparr>)"

subsection \<open>Teardown\<close>

text \<open>
  \<^verbatim>\<open>destroy\<close> stops the renderer and the runner and clears the world, static bodies
  included (\<^verbatim>\<open>Composite.clear(world, false)\<close>).
\<close>

definition destroy :: "simulation \<Rightarrow> simulation" where
  "destroy s = s\<lparr>running := False, world := []\<rparr>"

subsection \<open>A session\<close>

text \<open>
  What the program itself does to a constructed simulation until it is destroyed: a call
  of \<^verbatim>\<open>updateHandPosition\<close>, the handler of the engine's \<^verbatim>\<open>afterUpdate\<close> event, and a
  frame of the fade-in while one is requested. The engine's own motion of the bodies is
  outside the program and is not part of the model.
\<close>

datatype simEvent =
    HandUpdate real real real "real \<times> real"
  | AfterUpdate
  | FadeInFrame real

fun simStep :: "simEvent \<Rightarrow> simulation \<Rightarrow> simulation" where
  "simStep (HandUpdate handIndex x y random) s = updateHandPosition handIndex x y random s"
| "simStep AfterUpdate s = updateParticleColors s"
| "simStep (FadeInFrame now) s = (if fadeInPending s then animateFadeIn now s else s)"

fun simRun :: "simEvent list \<Rightarrow> simulation \<Rightarrow> simulation" where
  "simRun [] s = s"
| "simRun (e # es) s = simRun es (simStep e s)"

section \<open>The tracking component's effect\<close>

text \<open>
  The effect of \<^verbatim>\<open>HandTracking\<close> runs on one thread: its code runs in pieces, each
  started by the browser (a timer, a settled promise, an animation frame, a detector
  result) or by React (detaching refs, the effect's cleanup), and each piece runs to its
  next \<^verbatim>\<open>await\<close> or to its end before another starts. The model is a state and one
  step per such piece. The state holds the variables of the effect and of the component
  that the pieces read or write, the point where \<^verbatim>\<open>initializeTracking\<close> is suspended,
  and a record of what the outside has seen: camera tracks acquired and stopped, frames
  sent to the detector, calls of \<^verbatim>\<open>onHandUpdate\<close>.

  A camera track is a number; a \<^verbatim>\<open>MediaStream\<close> is the list of its tracks.
\<close>

type_synonym track = nat

datatype stage =
    NotStarted
  | LoadingScript
  | AwaitingCamera
  | AwaitingVideoData "track list"
  | InitializingHands
  | Returned

record tracking =
  mounted :: bool
  initTimeout :: bool
  stage :: stage
  videoRef :: bool
  canvasRef :: "canvas option"
  streamRef :: "track list option"
  handsRef :: bool
  onResultsSet :: bool
  frameRequested :: bool
  sending :: bool
  error :: "string option"
  isLoading :: bool
  isCameraReady :: bool
  acquired :: "track list"
  stopped :: "track list"
  sent :: nat
  updates :: "handUpdate list"
  handsClosed :: bool

text \<open>
  The state when the effect has run, for a mounted component: \<^verbatim>\<open>mounted\<close> is true, the
  timer of one second is armed, the refs hold the video and the canvas elements, and
  nothing has happened yet.
\<close>

definition useEffect :: "canvas \<Rightarrow> tracking" where
  "useEffect c =
     \<lparr>mounted = True, initTimeout = True, stage = NotStarted, videoRef = True,
      canvasRef = Some c, streamRef = None, handsRef = False, onResultsSet = False,
      frameRequested = False, sending = False, error = None, isLoading = True,
      isCameraReady = False, acquired = [], stopped = [], sent = 0, updates = [],
      handsClosed = False\<rparr>"

text \<open>
  What starts a piece of code. \<open>CameraDenied\<close> and \<open>HandsFailed\<close> carry the message of
  the error that was thrown; \<open>HandsFailed\<close> stands for an exception anywhere between the
  construction of the detector and the end of \<^verbatim>\<open>hands.initialize()\<close>, all caught by
  the same handler. \<open>Results\<close> carries the window as it is at that moment.
\<close>

datatype event =
    TimerFires
  | ScriptLoaded
  | ScriptFailed
  | CameraGranted "track list"
  | CameraDenied string
  | VideoLoadedData
  | HandsReady
  | HandsFailed string
  | AnimationFrame
  | SendDone
  | SendFailed
  | Results window results
  | RefsDetached
  | Teardown

text \<open>The three \<^verbatim>\<open>catch\<close> blocks of \<^verbatim>\<open>initializeTracking\<close>: each sets the error and returns.\<close>

definition failWith :: "string \<Rightarrow> tracking \<Rightarrow> tracking" where
  "failWith message s = s\<lparr>error := Some message, isLoading := False, stage := Returned\<rparr>"

text \<open>
  \<^verbatim>\<open>setupCamera\<close> after \<^verbatim>\<open>getUserMedia\<close> has given a stream: without a video element
  it throws, which \<^verbatim>\<open>initializeTracking\<close> catches; otherwise it attaches the stream
  and waits for the first frame.
\<close>

definition cameraGranted :: "track list \<Rightarrow> tracking \<Rightarrow> tracking" where
  "cameraGranted stream s =
     (let s1 = s\<lparr>acquired := acquired s @ stream\<rparr>
      in if \<not> videoRef s1
         then failWith (''Camera access failed: '' @ ''Video element not found'') s1
         else s1\<lparr>stage := AwaitingVideoData stream\<rparr>)"

text \<open>
  \<^verbatim>\<open>initializeTracking\<close> after \<^verbatim>\<open>setupCamera\<close> has resolved, up to
  \<^verbatim>\<open>await hands.initialize()\<close>.
\<close>

definition cameraReady :: "track list \<Rightarrow> tracking \<Rightarrow> tracking" where
  "cameraReady stream s =
     (if \<not> mounted s then s\<lparr>stage := Returned\<rparr>
      else s\<lparr>streamRef := Some stream, isCameraReady := True, stage := InitializingHands\<rparr>)"

text \<open>\<^verbatim>\<open>initializeTracking\<close> after \<^verbatim>\<open>hands.initialize()\<close> has resolved, to its end.\<close>

definition handsReady :: "tracking \<Rightarrow> tracking" where
  "handsReady s =
     (let s1 = s\<lparr>onResultsSet := True, handsRef := True\<rparr>
      in if \<not> videoRef s1 then s1\<lparr>stage := Returned\<rparr>
         else s1\<lparr>frameRequested := True, isLoading := False, stage := Returned\<rparr>)"

text \<open>The callback given to \<^verbatim>\<open>hands.onResults\<close>.\<close>

definition onResults :: "window \<Rightarrow> results \<Rightarrow> tracking \<Rightarrow> tracking" where
  "onResults w res s =
     (if \<not> mounted s then s
      else case canvasRef s of
             None \<Rightarrow> s
           | Some c \<Rightarrow>
               if \<not> context2d c then s
               else s\<lparr>updates := updates s @ handUpdates w c res\<rparr>)"

text \<open>\<^verbatim>\<open>processFrame\<close>, to its \<^verbatim>\<open>await\<close>, and its continuation.\<close>

definition processFrame :: "tracking \<Rightarrow> tracking" where
  "processFrame s =
     (if \<not> mounted s \<or> \<not> videoRef s \<or> \<not> handsRef s then s
      else s\<lparr>sent := Suc (sent s), sending := True\<rparr>)"

definition sendDone :: "tracking \<Rightarrow> tracking" where
  "sendDone s = s\<lparr>sending := False, frameRequested := True\<rparr>"

text \<open>The function the effect returns.\<close>

definition cleanup :: "tracking \<Rightarrow> tracking" where
  "cleanup s =
     (let s1 = s\<lparr>mounted := False, initTimeout := False\<rparr>;
          s2 = (case streamRef s1 of
                  None \<Rightarrow> s1
                | Some stream \<Rightarrow> s1\<lparr>stopped := stopped s1 @ stream\<rparr>)
      in if handsRef s2 then s2\<lparr>handsClosed := True\<rparr> else s2)"

text \<open>
  One piece of code. An event that has nothing to start (a timer that was cleared, a
  promise nothing awaits, a result before the callback is set) changes nothing.
\<close>

fun step :: "event \<Rightarrow> tracking \<Rightarrow> tracking" where
  "step TimerFires s =
     (if initTimeout s \<and> stage s = NotStarted
      then s\<lparr>initTimeout := False, isLoading := True, stage := LoadingScript\<rparr> else s)"
| "step ScriptLoaded s =
     (if stage s = LoadingScript then s\<lparr>stage := AwaitingCamera\<rparr> else s)"
| "step ScriptFailed s =
     (if stage s = LoadingScript
      then failWith ''Failed to load hand tracking library. Please check your connection and try again.'' s
      else s)"
| "step (CameraGranted stream) s =
     (if stage s = AwaitingCamera then cameraGranted stream s else s)"
| "step (CameraDenied message) s =
     (if stage s = AwaitingCamera then failWith (''Camera access failed: '' @ message) s else s)"
| "step VideoLoadedData s =
     (case stage s of AwaitingVideoData stream \<Rightarrow> cameraReady stream s | _ \<Rightarrow> s)"
| "step HandsReady s =
     (if stage s = InitializingHands then handsReady s else s)"
| "step (HandsFailed message) s =
     (if stage s = InitializingHands then failWith (''Hand tracking failed: '' @ message) s else s)"
| "step AnimationFrame s =
     (if frameRequested s then processFrame (s\<lparr>frameRequested := False\<rparr>) else s)"
| "step SendDone s = (if sending s then sendDone s else s)"
| "step SendFailed s = (if sending s then s\<lparr>sending := False\<rparr> else s)"
| "step (Results w res) s = (if onResultsSet s then onResults w res s else s)"
| "step RefsDetached s = s\<lparr>videoRef := False, canvasRef := None\<rparr>"
| "step Teardown s = cleanup s"

fun run :: "event list \<Rightarrow> tracking \<Rightarrow> tracking" where
  "run [] s = s"
| "run (e # es) s = run es (step e s)"

text \<open>The tracks that were acquired and never stopped.\<close>

definition leaked :: "tracking \<Rightarrow> track list" where
  "leaked s = filter (\<lambda>t. t \<notin> set (stopped s)) (acquired s)"

text \<open>
  The states of a component that is mounted with its video element attached and whose
  cleanup has not run: what has been acquired from the camera is either still on its way
  through \<^verbatim>\<open>setupCamera\<close> or held by \<^verbatim>\<open>streamRef\<close>, and an error has been set only
  after \<^verbatim>\<open>initializeTracking\<close> returned.
\<close>

definition attached :: "tracking \<Rightarrow> bool" where
  "attached s \<longleftrightarrow>
     mounted s \<and> videoRef s \<and> stopped s = [] \<and>
     (case stage s of
        AwaitingVideoData stream \<Rightarrow> acquired s = stream \<and> streamRef s = None \<and> error s = None
      | InitializingHands \<Rightarrow> streamRef s = Some (acquired s) \<and> error s = None
      | Returned \<Rightarrow> streamRef s = Some (acquired s) \<or> (acquired s = [] \<and> streamRef s = None)
      | _ \<Rightarrow> acquired s = [] \<and> streamRef s = None \<and> error s = None)"

section \<open>Properties of the coordinate mapping\<close>

lemma mirroredX_formula:
  "width c \<noteq> 0 \<Longrightarrow>
   mirroredX w c (nx, ny) = innerWidth w - (nx * (2 * innerWidth w) - 0.5 * innerWidth w)"
  by (simp add: mirroredX_def scaleX_def offsetX_def)

lemma mappedX_formula:
  "width c \<noteq> 0 \<Longrightarrow>
   mappedX w c (nx, ny) =
     max 0 (min (innerWidth w) (innerWidth w - (nx * (2 * innerWidth w) - 0.5 * innerWidth w)))"
  by (simp add: mappedX_def mirroredX_formula)

lemma mappedY_formula:
  "height c \<noteq> 0 \<Longrightarrow>
   mappedY w c (nx, ny) =
     max 0 (min (innerHeight w) (ny * (2 * innerHeight w) - 0.5 * innerHeight w))"
  by (simp add: mappedY_def scaleY_def offsetY_def)

lemma mappedX_range: "0 \<le> innerWidth w \<Longrightarrow> 0 \<le> mappedX w c p \<and> mappedX w c p \<le> innerWidth w"
  by (simp add: mappedX_def)

lemma mappedY_range: "0 \<le> innerHeight w \<Longrightarrow> 0 \<le> mappedY w c p \<and> mappedY w c p \<le> innerHeight w"
  by (simp add: mappedY_def)

lemma forHand_range:
  assumes "0 \<le> innerWidth w" and "0 \<le> innerHeight w" and "u \<in> set (forHand w c index landmarks)"
  shows "0 \<le> fst (snd u) \<and> fst (snd u) \<le> innerWidth w
       \<and> 0 \<le> snd (snd u) \<and> snd (snd u) \<le> innerHeight w"
  using assms mappedX_range [where w = w and c = c] mappedY_range [where w = w and c = c]
  by (auto simp: forHand_def split: option.splits)

lemma handUpdates_range:
  assumes "0 \<le> innerWidth w" and "0 \<le> innerHeight w" and "u \<in> set (handUpdates w c res)"
  shows "0 \<le> fst (snd u) \<and> fst (snd u) \<le> innerWidth w
       \<and> 0 \<le> snd (snd u) \<and> snd (snd u) \<le> innerHeight w"
proof (cases "multiHandLandmarks res")
  case None
  with assms(3) show ?thesis by (simp add: handUpdates_def)
next
  case (Some hands)
  with assms(3) obtain index landmarks where "u \<in> set (forHand w c index landmarks)"
    by (auto simp: handUpdates_def)
  with assms(1,2) show ?thesis by (rule forHand_range)
qed

text \<open>
  C1. On a canvas of any positive size, the position before clamping is
  \<open>x = W - (nx * 2W - 0.5W)\<close> and \<open>y = ny * 2H - 0.5H\<close> for a viewport of width
  \<open>W\<close> and height \<open>H\<close>, and what is handed on is that position clamped. The
  landmark \<open>(0.5, 0.5)\<close> on a 1920 by 1080 viewport is mapped to the centre
  \<open>(960, 540)\<close>, whatever the size of the frame.
\<close>

theorem mapping_formula:
  assumes "0 < width c" and "0 < height c"
  shows "mirroredX w c (nx, ny) = innerWidth w - (nx * (2 * innerWidth w) - 0.5 * innerWidth w)
       \<and> mappedX w c (nx, ny) =
           max 0 (min (innerWidth w) (innerWidth w - (nx * (2 * innerWidth w) - 0.5 * innerWidth w)))
       \<and> mappedY w c (nx, ny) =
           max 0 (min (innerHeight w) (ny * (2 * innerHeight w) - 0.5 * innerHeight w))
       \<and> mappedX \<lparr>innerWidth = 1920, innerHeight = 1080\<rparr> c (0.5, 0.5) = 960
       \<and> mappedY \<lparr>innerWidth = 1920, innerHeight = 1080\<rparr> c (0.5, 0.5) = 540"
proof -
  from assms have nz: "width c \<noteq> 0" "height c \<noteq> 0" by simp_all
  have "mappedX \<lparr>innerWidth = 1920, innerHeight = 1080\<rparr> c (0.5, 0.5) = 960"
    using nz(1) by (simp add: mappedX_formula)
  moreover have "mappedY \<lparr>innerWidth = 1920, innerHeight = 1080\<rparr> c (0.5, 0.5) = 540"
    using nz(2) by (simp add: mappedY_formula)
  ultimately show ?thesis
    using nz by (simp add: mirroredX_formula mappedX_formula mappedY_formula)
qed

theorem mapping_formula_witness:
  "0 < width (previewCanvas \<lparr>innerWidth = 1920, innerHeight = 1080\<rparr>)
   \<and> 0 < height (previewCanvas \<lparr>innerWidth = 1920, innerHeight = 1080\<rparr>)
   \<and> width (previewCanvas \<lparr>innerWidth = 1920, innerHeight = 1080\<rparr>) = 640
   \<and> height (previewCanvas \<lparr>innerWidth = 1920, innerHeight = 1080\<rparr>) = 480
   \<and> mirroredX \<lparr>innerWidth = 1920, innerHeight = 1080\<rparr>
        (previewCanvas \<lparr>innerWidth = 1920, innerHeight = 1080\<rparr>) (0.25, 0.75) = 1920
   \<and> mappedY \<lparr>innerWidth = 1920, innerHeight = 1080\<rparr>
        (previewCanvas \<lparr>innerWidth = 1920, innerHeight = 1080\<rparr>) (0.25, 0.75) = 1080
   \<and> mappedX \<lparr>innerWidth = 1920, innerHeight = 1080\<rparr>
        (previewCanvas \<lparr>innerWidth = 1920, innerHeight = 1080\<rparr>) (0.5, 0.5) = 960
   \<and> mappedY \<lparr>innerWidth = 1920, innerHeight = 1080\<rparr>
        (previewCanvas \<lparr>innerWidth = 1920, innerHeight = 1080\<rparr>) (0.5, 0.5) = 540"
proof -
  have pos: "0 < width (previewCanvas \<lparr>innerWidth = 1920, innerHeight = 1080\<rparr>)"
    "0 < height (previewCanvas \<lparr>innerWidth = 1920, innerHeight = 1080\<rparr>)"
    by (simp_all add: previewCanvas_def CANVAS_DIMENSIONS_def)
  show ?thesis
    using mapping_formula [OF pos, where w = "\<lparr>innerWidth = 1920, innerHeight = 1080\<rparr>"
        and nx = "0.25" and ny = "0.75"]
    by (simp add: previewCanvas_def CANVAS_DIMENSIONS_def)
qed

text \<open>
  C2. For a viewport of width \<open>W \<ge> 0\<close> and height \<open>H \<ge> 0\<close>, every pair handed to
  \<^verbatim>\<open>onHandUpdate\<close> lies in \<open>[0, W] \<times> [0, H]\<close>. No landmark is rejected: a hand
  whose hand point exists yields exactly one update, whether or not its coordinates
  lie in \<open>[0, 1]\<close>, and that update is inside the rectangle.
\<close>

theorem mapping_clamped:
  assumes "0 \<le> innerWidth w" and "0 \<le> innerHeight w" and "0 < width c" and "0 < height c"
  shows "(\<forall>u \<in> set (handUpdates w c res).
            0 \<le> fst (snd u) \<and> fst (snd u) \<le> innerWidth w
          \<and> 0 \<le> snd (snd u) \<and> snd (snd u) \<le> innerHeight w)
       \<and> (\<forall>handPoint index landmarks. handPointOf w landmarks = Some handPoint \<longrightarrow>
            forHand w c index landmarks =
              [(real index, mappedX w c handPoint, mappedY w c handPoint)]
          \<and> 0 \<le> mappedX w c handPoint \<and> mappedX w c handPoint \<le> innerWidth w
          \<and> 0 \<le> mappedY w c handPoint \<and> mappedY w c handPoint \<le> innerHeight w)"
  using assms(1,2) handUpdates_range [where w = w and c = c and res = res]
    mappedX_range [where w = w and c = c] mappedY_range [where w = w and c = c]
  by (auto simp: forHand_def)

theorem mapping_clamped_witness:
  "0 \<le> innerWidth \<lparr>innerWidth = 1920, innerHeight = 1080\<rparr> \<and> 0 \<le> innerHeight \<lparr>innerWidth = 1920, innerHeight = 1080\<rparr> \<and> 0 < width \<lparr>width = 640, height = 480, context2d = True\<rparr> \<and> 0 < height \<lparr>width = 640, height = 480, context2d = True\<rparr>
   \<and> handPointOf \<lparr>innerWidth = 1920, innerHeight = 1080\<rparr> (replicate 21 (1.2, - 0.3)) = Some (1.2, - 0.3)
   \<and> forHand \<lparr>innerWidth = 1920, innerHeight = 1080\<rparr> \<lparr>width = 640, height = 480, context2d = True\<rparr> 0 (replicate 21 (1.2, - 0.3)) = [(0, 0, 0)]
   \<and> handUpdates \<lparr>innerWidth = 1920, innerHeight = 1080\<rparr> \<lparr>width = 640, height = 480, context2d = True\<rparr>
         \<lparr>multiHandLandmarks = Some [replicate 21 (1.2, - 0.3), replicate 21 (0.5, 0.5)]\<rparr>
       = [(0, 0, 0), (1, 960, 540)]"
proof -
  have pre: "0 \<le> innerWidth \<lparr>innerWidth = 1920, innerHeight = 1080\<rparr>" "0 \<le> innerHeight \<lparr>innerWidth = 1920, innerHeight = 1080\<rparr>" "0 < width \<lparr>width = 640, height = 480, context2d = True\<rparr>" "0 < height \<lparr>width = 640, height = 480, context2d = True\<rparr>"
    by simp_all
  have hp: "handPointOf \<lparr>innerWidth = 1920, innerHeight = 1080\<rparr> (replicate 21 (1.2, - 0.3)) = Some (1.2, - 0.3)"
    by (simp add: handPointOf_def)
  have "handUpdates \<lparr>innerWidth = 1920, innerHeight = 1080\<rparr> \<lparr>width = 640, height = 480, context2d = True\<rparr>
         \<lparr>multiHandLandmarks = Some [replicate 21 (1.2, - 0.3), replicate 21 (0.5, 0.5)]\<rparr>
       = [(0, 0, 0), (1, 960, 540)]"
    by (simp add: handUpdates_def forHand_def handPointOf_def mappedX_def mappedY_def
        mirroredX_def scaleX_def scaleY_def offsetX_def offsetY_def upt_rec)
  then show ?thesis
    using hp mapping_clamped [OF pre]
    by (simp add: forHand_def mappedX_def mappedY_def mirroredX_def scaleX_def scaleY_def
        offsetX_def offsetY_def)
qed

text \<open>
  C3. For a viewport of width \<open>W \<ge> 0\<close>, the outputs for normalized \<open>x = 0\<close> and
  \<open>x = 1\<close> at the same \<open>y\<close> are mirror images around \<open>W / 2\<close>: they sum to \<open>W\<close>,
  before clamping (\<open>1.5 W\<close> and \<open>-0.5 W\<close>) and after it (\<open>W\<close> and \<open>0\<close>).
\<close>

theorem mapping_mirrored:
  assumes "0 \<le> innerWidth w" and "0 < width c"
  shows "mappedX w c (0, ny) + mappedX w c (1, ny) = innerWidth w
       \<and> mappedX w c (0, ny) - innerWidth w / 2 = innerWidth w / 2 - mappedX w c (1, ny)
       \<and> mirroredX w c (0, ny) + mirroredX w c (1, ny) = innerWidth w"
proof -
  from assms(2) have nz: "width c \<noteq> 0" by simp
  have x0: "mappedX w c (0, ny) = innerWidth w"
    using assms(1) nz by (simp add: mappedX_formula)
  have x1: "mappedX w c (1, ny) = 0"
    using assms(1) nz by (simp add: mappedX_formula)
  show ?thesis
    using nz by (simp add: x0 x1 mirroredX_formula)
qed

theorem mapping_mirrored_witness:
  "0 \<le> innerWidth \<lparr>innerWidth = 1920, innerHeight = 1080\<rparr> \<and> 0 < width \<lparr>width = 640, height = 480, context2d = True\<rparr>
   \<and> mappedX \<lparr>innerWidth = 1920, innerHeight = 1080\<rparr> \<lparr>width = 640, height = 480, context2d = True\<rparr> (0, 0.3) = 1920 \<and> mappedX \<lparr>innerWidth = 1920, innerHeight = 1080\<rparr> \<lparr>width = 640, height = 480, context2d = True\<rparr> (1, 0.3) = 0
   \<and> mappedX \<lparr>innerWidth = 1920, innerHeight = 1080\<rparr> \<lparr>width = 640, height = 480, context2d = True\<rparr> (0, 0.3) + mappedX \<lparr>innerWidth = 1920, innerHeight = 1080\<rparr> \<lparr>width = 640, height = 480, context2d = True\<rparr> (1, 0.3) = innerWidth \<lparr>innerWidth = 1920, innerHeight = 1080\<rparr>
   \<and> mirroredX \<lparr>innerWidth = 1920, innerHeight = 1080\<rparr> \<lparr>width = 640, height = 480, context2d = True\<rparr> (0, 0.3) = 2880 \<and> mirroredX \<lparr>innerWidth = 1920, innerHeight = 1080\<rparr> \<lparr>width = 640, height = 480, context2d = True\<rparr> (1, 0.3) = - 960"
proof -
  have pre: "0 \<le> innerWidth \<lparr>innerWidth = 1920, innerHeight = 1080\<rparr>" "0 < width \<lparr>width = 640, height = 480, context2d = True\<rparr>"
    by simp_all
  show ?thesis
    using mapping_mirrored [OF pre, where ny = "0.3"]
    by (simp add: mappedX_def mirroredX_def scaleX_def offsetX_def)
qed

section \<open>Properties of the simulation\<close>

subsection \<open>In-place loops over bodies\<close>

lemma forEachBody_Nil: "forEachBody f [] h = h"
  by (simp add: forEachBody_def)

lemma forEachBody_Cons: "forEachBody f (a # refs) h = forEachBody f refs (h(a := f (h a)))"
  by (simp add: forEachBody_def)

lemma forEachBody_other: "r \<notin> set refs \<Longrightarrow> forEachBody f refs h r = h r"
  by (induction refs arbitrary: h) (simp_all add: forEachBody_Nil forEachBody_Cons)

text \<open>A body listed twice is visited twice; for an idempotent change that is one visit.\<close>

lemma forEachBody_idem:
  assumes idem: "\<And>b. f (f b) = f b" and mem: "r \<in> set refs"
  shows "forEachBody f refs h r = f (h r)"
  using mem
proof (induction refs arbitrary: h)
  case Nil
  then show ?case by simp
next
  case (Cons a refs)
  show ?case
  proof (cases "r \<in> set refs")
    case True
    then have "forEachBody f refs (h(a := f (h a))) r = f ((h(a := f (h a))) r)"
      by (rule Cons.IH)
    then show ?thesis
      by (simp add: forEachBody_Cons idem)
  next
    case False
    with Cons.prems have "r = a" by simp
    with False show ?thesis
      by (simp add: forEachBody_Cons forEachBody_other)
  qed
qed

lemma forEachBody_keeps:
  assumes "\<And>b. g (f b) = g b"
  shows "g (forEachBody f refs h r) = g (h r)"
  by (induction refs arbitrary: h) (simp_all add: forEachBody_Nil forEachBody_Cons assms)

subsection \<open>Allocation\<close>

lemma allocAll_Cons:
  "allocAll (b # bs) s =
     (fresh s # fst (allocAll bs (s\<lparr>heap := (heap s)(fresh s := b), fresh := Suc (fresh s)\<rparr>)),
      snd (allocAll bs (s\<lparr>heap := (heap s)(fresh s := b), fresh := Suc (fresh s)\<rparr>)))"
  by (simp add: alloc_def split_beta)

lemma allocAll_refs: "fst (allocAll bs s) = [fresh s ..< fresh s + length bs]"
  by (induction bs arbitrary: s) (simp_all add: allocAll_Cons upt_rec del: allocAll.simps(2))

lemma allocAll_frame:
  "fresh (snd (allocAll bs s)) = fresh s + length bs
   \<and> world (snd (allocAll bs s)) = world s
   \<and> particles (snd (allocAll bs s)) = particles s
   \<and> leftHandBody (snd (allocAll bs s)) = leftHandBody s
   \<and> rightHandBody (snd (allocAll bs s)) = rightHandBody s
   \<and> running (snd (allocAll bs s)) = running s"
  by (induction bs arbitrary: s) (simp_all add: allocAll_Cons del: allocAll.simps(2))

lemma allocAll_old: "r < fresh s \<Longrightarrow> heap (snd (allocAll bs s)) r = heap s r"
  by (induction bs arbitrary: s) (simp_all add: allocAll_Cons del: allocAll.simps(2))

lemma allocAll_new:
  "fresh s \<le> r \<Longrightarrow> r < fresh s + length bs \<Longrightarrow> heap (snd (allocAll bs s)) r = bs ! (r - fresh s)"
proof (induction bs arbitrary: s)
  case Nil
  then show ?case by simp
next
  case (Cons b bs)
  let ?s1 = "s\<lparr>heap := (heap s)(fresh s := b), fresh := Suc (fresh s)\<rparr>"
  show ?case
  proof (cases "r = fresh s")
    case True
    then show ?thesis
      using allocAll_old [of r ?s1 bs]
      by (simp add: allocAll_Cons del: allocAll.simps(2))
  next
    case False
    with Cons.prems have "fresh ?s1 \<le> r" "r < fresh ?s1 + length bs"
      by simp_all
    from Cons.IH [OF this] False Cons.prems(1) show ?thesis
      by (simp add: allocAll_Cons del: allocAll.simps(2))
  qed
qed

subsection \<open>The constructed simulation\<close>

lemma length_grid: "length (concat (map (\<lambda>row. map (g row) [0 ..< cols]) [0 ..< rows])) = rows * cols"
  by (simp add: length_concat comp_def sum_list_triv)

lemma createHandBodies_shape:
  "fresh (createHandBodies w s) = fresh s + 2
   \<and> world (createHandBodies w s) = world s @ [fresh s, Suc (fresh s)]
   \<and> particles (createHandBodies w s) = particles s
   \<and> leftHandBody (createHandBodies w s) = fresh s
   \<and> rightHandBody (createHandBodies w s) = Suc (fresh s)
   \<and> heap (createHandBodies w s) (fresh s) = leftHand
   \<and> heap (createHandBodies w s) (Suc (fresh s)) = rightHand w"
  by (simp add: createHandBodies_def alloc_def Composite_add_def)

lemma createBoundaries_shape:
  "fresh (createBoundaries w s) = fresh s + 3
   \<and> world (createBoundaries w s) = world s @ [fresh s, fresh s + 1, fresh s + 2]
   \<and> particles (createBoundaries w s) = particles s
   \<and> leftHandBody (createBoundaries w s) = leftHandBody s
   \<and> rightHandBody (createBoundaries w s) = rightHandBody s"
  by (simp add: createBoundaries_def Let_def split_beta Composite_add_def allocAll_frame
      allocAll_refs upt_rec del: allocAll.simps)

lemma createBoundaries_old: "r < fresh s \<Longrightarrow> heap (createBoundaries w s) r = heap s r"
  by (simp add: createBoundaries_def Let_def split_beta Composite_add_def allocAll_old
      del: allocAll.simps)

lemma createBoundaries_new:
  assumes "fresh s \<le> r" and "r < fresh s + 3"
  shows "category (heap (createBoundaries w s) r) = defaultCategory"
proof -
  let ?walls = "[wall (innerWidth w / 2, innerHeight w + 50), wall (- 50, innerHeight w / 2),
                 wall (innerWidth w + 50, innerHeight w / 2)]"
  have "heap (createBoundaries w s) r = ?walls ! (r - fresh s)"
    using assms allocAll_new [of s r ?walls]
    by (simp add: createBoundaries_def Let_def split_beta Composite_add_def del: allocAll.simps)
  moreover have "\<forall>b \<in> set ?walls. category b = defaultCategory"
    by (simp add: wall_def newBody_def)
  moreover have "r - fresh s < length ?walls"
    using assms by simp
  ultimately show ?thesis
    using nth_mem by metis
qed

lemma particleBodies_length: "length (particleBodies w random) = particleCount w"
  by (simp add: particleBodies_def Let_def length_grid particleCount_def)

lemma particleBodies_all:
  "b \<in> set (particleBodies w random) \<Longrightarrow>
   category b = defaultCategory \<and> render b = Some particleRender"
  by (auto simp add: particleBodies_def Let_def gridParticle_def scatteredParticle_def
      particleAt_def newBody_def defaultCategory_def)

lemma createParticles_shape:
  "fresh (createParticles w random s) = fresh s + particleCount w
   \<and> particles (createParticles w random s) = particles s @ [fresh s ..< fresh s + particleCount w]
   \<and> world (createParticles w random s) =
       world s @ particles s @ [fresh s ..< fresh s + particleCount w]
   \<and> leftHandBody (createParticles w random s) = leftHandBody s
   \<and> rightHandBody (createParticles w random s) = rightHandBody s"
  by (simp add: createParticles_def split_beta Composite_add_def allocAll_frame allocAll_refs
      particleBodies_length del: allocAll.simps)

lemma createParticles_old: "r < fresh s \<Longrightarrow> heap (createParticles w random s) r = heap s r"
  by (simp add: createParticles_def split_beta Composite_add_def allocAll_old del: allocAll.simps)

lemma createParticles_new:
  assumes "fresh s \<le> r" and "r < fresh s + particleCount w"
  shows "category (heap (createParticles w random s) r) = defaultCategory
       \<and> render (heap (createParticles w random s) r) = Some particleRender"
proof -
  have "heap (createParticles w random s) r = particleBodies w random ! (r - fresh s)"
    using assms by (simp add: createParticles_def split_beta Composite_add_def allocAll_new
        particleBodies_length del: allocAll.simps)
  moreover from assms have "r - fresh s < length (particleBodies w random)"
    by (simp add: particleBodies_length)
  ultimately show ?thesis
    using particleBodies_all [of _ w random] nth_mem by metis
qed

lemma animateFadeIn_frame:
  "world (animateFadeIn now s) = world s \<and> particles (animateFadeIn now s) = particles s
   \<and> leftHandBody (animateFadeIn now s) = leftHandBody s
   \<and> rightHandBody (animateFadeIn now s) = rightHandBody s
   \<and> category (heap (animateFadeIn now s) r) = category (heap s r)"
  by (simp add: animateFadeIn_def Let_def forEachBody_keeps split: option.splits)

lemma LiquidSimulation_shape:
  "leftHandBody (LiquidSimulation w random now1 now2) = 0
   \<and> rightHandBody (LiquidSimulation w random now1 now2) = 1
   \<and> world (LiquidSimulation w random now1 now2) = [0, 1, 2, 3, 4] @ [5 ..< 5 + particleCount w]
   \<and> particles (LiquidSimulation w random now1 now2) = [5 ..< 5 + particleCount w]"
  by (simp add: LiquidSimulation_def Let_def animateFadeIn_frame createDraggableObjects_def
      createParticles_shape createBoundaries_shape createHandBodies_shape emptySimulation_def)

lemma LiquidSimulation_category:
  assumes "r < 5 + particleCount w"
  shows "category (heap (LiquidSimulation w random now1 now2) r) =
           (if r < 2 then handCategory else defaultCategory)"
proof -
  let ?s1 = "createHandBodies w emptySimulation"
  let ?s2 = "createBoundaries w ?s1"
  let ?s3 = "createParticles w random ?s2"
  have f0: "fresh emptySimulation = 0" by (simp add: emptySimulation_def)
  have f1: "fresh ?s1 = 2" by (simp add: createHandBodies_shape f0)
  have f2: "fresh ?s2 = 5" by (simp add: createBoundaries_shape f1)
  have cat: "category (heap (LiquidSimulation w random now1 now2) r) = category (heap ?s3 r)"
    by (simp add: LiquidSimulation_def Let_def animateFadeIn_frame createDraggableObjects_def)
  from assms consider "r < 2" | "2 \<le> r" "r < 5" | "5 \<le> r" "r < 5 + particleCount w"
    by linarith
  then show ?thesis
  proof cases
    case 1
    then have "heap ?s3 r = heap ?s1 r"
      by (simp add: createParticles_old createBoundaries_old f1 f2)
    moreover from 1 have "r = 0 \<or> r = Suc 0" by auto
    ultimately show ?thesis
      using 1 createHandBodies_shape [of w emptySimulation]
      by (auto simp add: cat f0 leftHand_def rightHand_def newBody_def)
  next
    case 2
    then have "heap ?s3 r = heap ?s2 r"
      by (simp add: createParticles_old f2)
    with 2 show ?thesis
      using createBoundaries_new [of ?s1 r w] by (simp add: cat f1)
  next
    case 3
    then show ?thesis
      using createParticles_new [of ?s2 r w random] by (simp add: cat f2)
  qed
qed

lemma LiquidSimulation_hands:
  "filter (\<lambda>r. category (heap (LiquidSimulation w random now1 now2) r) = handCategory)
     (world (LiquidSimulation w random now1 now2)) = [0, 1]"
proof -
  let ?S = "LiquidSimulation w random now1 now2"
  have neq: "handCategory \<noteq> defaultCategory"
    by (simp add: handCategory_def defaultCategory_def)
  have "\<forall>r \<in> set [5 ..< 5 + particleCount w]. category (heap ?S r) \<noteq> handCategory"
    using neq by (simp add: LiquidSimulation_category)
  then have "filter (\<lambda>r. category (heap ?S r) = handCategory) [5 ..< 5 + particleCount w] = []"
    by (simp add: filter_empty_conv)
  moreover have "filter (\<lambda>r. category (heap ?S r) = handCategory) [0, 1, 2, 3, 4] = [0, 1]"
    using neq by (simp add: LiquidSimulation_category)
  ultimately show ?thesis
    by (simp only: LiquidSimulation_shape filter_append append_Nil2)
qed

subsection \<open>Moving a hand proxy\<close>

lemma updateHandPosition_selected:
  "handBody = (if handIndex = 0 then leftHandBody s else rightHandBody s) \<Longrightarrow>
   heap (updateHandPosition handIndex x y random s) handBody =
     (heap s handBody)
       \<lparr>force := (fst (force (heap s handBody)) + (fst random - 0.5) * 0.0001,
                  snd (force (heap s handBody)) + (snd random - 0.5) * 0.0001),
        velocity := ((x - fst (position (heap s handBody))) * 1.2,
                     (y - snd (position (heap s handBody))) * 1.2),
        position := (x, y)\<rparr>"
  by (simp add: updateHandPosition_def Let_def Body_applyForce_def Body_setVelocity_def
      Body_setPosition_def)

lemma updateHandPosition_other:
  "r \<noteq> (if handIndex = 0 then leftHandBody s else rightHandBody s) \<Longrightarrow>
   heap (updateHandPosition handIndex x y random s) r = heap s r"
  by (simp add: updateHandPosition_def Let_def)

lemma updateHandPosition_frame:
  "world (updateHandPosition handIndex x y random s) = world s
   \<and> particles (updateHandPosition handIndex x y random s) = particles s
   \<and> leftHandBody (updateHandPosition handIndex x y random s) = leftHandBody s
   \<and> rightHandBody (updateHandPosition handIndex x y random s) = rightHandBody s
   \<and> running (updateHandPosition handIndex x y random s) = running s"
  by (simp add: updateHandPosition_def Let_def)

lemma updateHandPosition_category:
  "category (heap (updateHandPosition handIndex x y random s) r) = category (heap s r)"
  by (simp add: updateHandPosition_def Let_def Body_applyForce_def Body_setVelocity_def
      Body_setPosition_def)

lemma random_force_range:
  fixes r :: real
  assumes "0 \<le> r" and "r < 1"
  shows "- 0.00005 \<le> (r - 0.5) * 0.0001 \<and> (r - 0.5) * 0.0001 \<le> 0.00005"
  using assms by simp

text \<open>
  C4. A call \<^verbatim>\<open>updateHandPosition(handIndex, x, y)\<close> in which \<^verbatim>\<open>Math.random()\<close>
  returns two numbers of \<open>[0, 1)\<close> adds to the selected proxy a force whose components
  are \<open>(random - 0.5) * 0.0001\<close>, so within \<open>[-0.00005, 0.00005]\<close>, sets its velocity
  to 1.2 times the displacement from the position it had to the target, and sets its
  position to the target.
\<close>

theorem updateHandPosition_effect:
  assumes "0 \<le> fst random" and "fst random < 1" and "0 \<le> snd random" and "snd random < 1"
    and "handBody = (if handIndex = 0 then leftHandBody s else rightHandBody s)"
    and "before = heap s handBody"
    and "after = heap (updateHandPosition handIndex x y random s) handBody"
  shows "fst (force after) - fst (force before) = (fst random - 0.5) * 0.0001
       \<and> snd (force after) - snd (force before) = (snd random - 0.5) * 0.0001
       \<and> - 0.00005 \<le> fst (force after) - fst (force before)
       \<and> fst (force after) - fst (force before) \<le> 0.00005
       \<and> - 0.00005 \<le> snd (force after) - snd (force before)
       \<and> snd (force after) - snd (force before) \<le> 0.00005
       \<and> velocity after = ((x - fst (position before)) * 1.2, (y - snd (position before)) * 1.2)
       \<and> position after = (x, y)"
proof -
  have eq: "after = before
       \<lparr>force := (fst (force before) + (fst random - 0.5) * 0.0001,
                  snd (force before) + (snd random - 0.5) * 0.0001),
        velocity := ((x - fst (position before)) * 1.2, (y - snd (position before)) * 1.2),
        position := (x, y)\<rparr>"
    unfolding assms(6,7) using assms(5) by (rule updateHandPosition_selected)
  have fx: "fst (force after) - fst (force before) = (fst random - 0.5) * 0.0001"
    and fy: "snd (force after) - snd (force before) = (snd random - 0.5) * 0.0001"
    by (simp_all add: eq)
  show ?thesis
    using random_force_range [OF assms(1,2)] random_force_range [OF assms(3,4)]
    unfolding fx fy by (simp add: eq)
qed

theorem updateHandPosition_effect_witness:
  "0 \<le> fst (0.25 :: real, 0.75 :: real) \<and> fst (0.25 :: real, 0.75 :: real) < 1
   \<and> 0 \<le> snd (0.25 :: real, 0.75 :: real) \<and> snd (0.25 :: real, 0.75 :: real) < 1
   \<and> leftHandBody (updateHandPosition 0 100 200 (0.5, 0.5) (createHandBodies \<lparr>innerWidth = 1920, innerHeight = 1080\<rparr> emptySimulation)) = 0
   \<and> position (heap (updateHandPosition 0 100 200 (0.5, 0.5)
         (createHandBodies \<lparr>innerWidth = 1920, innerHeight = 1080\<rparr> emptySimulation)) 0) = (100, 200)
   \<and> force (heap (updateHandPosition 0 100 200 (0.5, 0.5)
         (createHandBodies \<lparr>innerWidth = 1920, innerHeight = 1080\<rparr> emptySimulation)) 0) = (0, 0)
   \<and> fst (force (heap (updateHandPosition 0 960 540 (0.25, 0.75)
         (updateHandPosition 0 100 200 (0.5, 0.5) (createHandBodies \<lparr>innerWidth = 1920, innerHeight = 1080\<rparr> emptySimulation))) 0))
       = - 0.000025
   \<and> snd (force (heap (updateHandPosition 0 960 540 (0.25, 0.75)
         (updateHandPosition 0 100 200 (0.5, 0.5) (createHandBodies \<lparr>innerWidth = 1920, innerHeight = 1080\<rparr> emptySimulation))) 0))
       = 0.000025
   \<and> velocity (heap (updateHandPosition 0 960 540 (0.25, 0.75)
         (updateHandPosition 0 100 200 (0.5, 0.5) (createHandBodies \<lparr>innerWidth = 1920, innerHeight = 1080\<rparr> emptySimulation))) 0)
       = (1032, 408)
   \<and> position (heap (updateHandPosition 0 960 540 (0.25, 0.75)
         (updateHandPosition 0 100 200 (0.5, 0.5) (createHandBodies \<lparr>innerWidth = 1920, innerHeight = 1080\<rparr> emptySimulation))) 0)
       = (960, 540)"
proof -
  let ?s = "updateHandPosition 0 100 200 (0.5, 0.5) (createHandBodies \<lparr>innerWidth = 1920, innerHeight = 1080\<rparr> emptySimulation)"
  have rnd: "0 \<le> fst (0.25 :: real, 0.75 :: real)" "fst (0.25 :: real, 0.75 :: real) < 1"
    "0 \<le> snd (0.25 :: real, 0.75 :: real)" "snd (0.25 :: real, 0.75 :: real) < 1"
    by simp_all
  have left: "leftHandBody ?s = 0"
    by (simp add: updateHandPosition_frame createHandBodies_shape emptySimulation_def)
  have before: "position (heap ?s 0) = (100, 200) \<and> force (heap ?s 0) = (0, 0)"
    using updateHandPosition_selected [of 0 0 "createHandBodies \<lparr>innerWidth = 1920, innerHeight = 1080\<rparr> emptySimulation" 100 200 "(0.5, 0.5)"]
      createHandBodies_shape [of "\<lparr>innerWidth = 1920, innerHeight = 1080\<rparr>" emptySimulation]
    by (simp add: emptySimulation_def leftHand_def newBody_def)
  have sel: "(0 :: nat) = (if (0 :: real) = 0 then leftHandBody ?s else rightHandBody ?s)"
    using left by simp
  show ?thesis
    using updateHandPosition_effect [OF rnd sel refl refl, of 960 540] before left
    by simp
qed

text \<open>
  C10. A call with \<open>handIndex \<noteq> 0\<close>, whether 1, 2, negative or fractional, moves the
  right-hand proxy and leaves every other body as it was. Whatever the index, no body
  other than the two hand proxies is touched, and the world and the two hand fields
  stay as they are.
\<close>

theorem updateHandPosition_dispatch:
  assumes "handIndex \<noteq> 0"
  shows "position (heap (updateHandPosition handIndex x y random s) (rightHandBody s)) = (x, y)
       \<and> velocity (heap (updateHandPosition handIndex x y random s) (rightHandBody s)) =
           ((x - fst (position (heap s (rightHandBody s)))) * 1.2,
            (y - snd (position (heap s (rightHandBody s)))) * 1.2)
       \<and> (\<forall>r. r \<noteq> rightHandBody s \<longrightarrow>
             heap (updateHandPosition handIndex x y random s) r = heap s r)
       \<and> (\<forall>i r. r \<noteq> leftHandBody s \<and> r \<noteq> rightHandBody s \<longrightarrow>
             heap (updateHandPosition i x y random s) r = heap s r)
       \<and> world (updateHandPosition handIndex x y random s) = world s
       \<and> leftHandBody (updateHandPosition handIndex x y random s) = leftHandBody s
       \<and> rightHandBody (updateHandPosition handIndex x y random s) = rightHandBody s"
proof -
  have sel: "rightHandBody s = (if handIndex = 0 then leftHandBody s else rightHandBody s)"
    using assms by simp
  have "\<forall>r. r \<noteq> rightHandBody s \<longrightarrow> heap (updateHandPosition handIndex x y random s) r = heap s r"
    using assms by (simp add: updateHandPosition_other)
  moreover have "\<forall>i r. r \<noteq> leftHandBody s \<and> r \<noteq> rightHandBody s \<longrightarrow>
      heap (updateHandPosition i x y random s) r = heap s r"
    by (simp add: updateHandPosition_other)
  ultimately show ?thesis
    by (simp add: updateHandPosition_selected [OF sel] updateHandPosition_frame)
qed

theorem updateHandPosition_dispatch_witness:
  "(2 :: real) \<noteq> 0
   \<and> rightHandBody (createHandBodies \<lparr>innerWidth = 1920, innerHeight = 1080\<rparr> emptySimulation) = 1
   \<and> position (heap (updateHandPosition 2 300 400 (0.5, 0.5)
         (createHandBodies \<lparr>innerWidth = 1920, innerHeight = 1080\<rparr> emptySimulation)) 1) = (300, 400)
   \<and> velocity (heap (updateHandPosition 2 300 400 (0.5, 0.5)
         (createHandBodies \<lparr>innerWidth = 1920, innerHeight = 1080\<rparr> emptySimulation)) 1) = (360, 480)
   \<and> heap (updateHandPosition 2 300 400 (0.5, 0.5) (createHandBodies \<lparr>innerWidth = 1920, innerHeight = 1080\<rparr> emptySimulation)) 0
       = leftHand"
proof -
  have ne: "(2 :: real) \<noteq> 0" by simp
  have shape: "rightHandBody (createHandBodies \<lparr>innerWidth = 1920, innerHeight = 1080\<rparr> emptySimulation) = 1
      \<and> heap (createHandBodies \<lparr>innerWidth = 1920, innerHeight = 1080\<rparr> emptySimulation) 0 = leftHand
      \<and> position (heap (createHandBodies \<lparr>innerWidth = 1920, innerHeight = 1080\<rparr> emptySimulation) 1) = (0, 0)"
    using createHandBodies_shape [of "\<lparr>innerWidth = 1920, innerHeight = 1080\<rparr>" emptySimulation]
    by (simp add: emptySimulation_def rightHand_def newBody_def)
  show ?thesis
    using updateHandPosition_dispatch [OF ne, of 300 400 "(0.5, 0.5)"
        "createHandBodies \<lparr>innerWidth = 1920, innerHeight = 1080\<rparr> emptySimulation"] shape
    by simp
qed

subsection \<open>The two hand proxies over a session\<close>

lemma recolor_keeps:
  "category (recolor b) = category b \<and> velocity (recolor b) = velocity b
   \<and> position (recolor b) = position b"
  by (simp add: recolor_def split: option.splits)

lemma simStep_frame:
  "world (simStep e s) = world s \<and> leftHandBody (simStep e s) = leftHandBody s
   \<and> rightHandBody (simStep e s) = rightHandBody s
   \<and> category (heap (simStep e s) r) = category (heap s r)"
proof (cases e)
  case (HandUpdate handIndex x y random)
  then show ?thesis
    by (simp add: updateHandPosition_frame updateHandPosition_category)
next
  case AfterUpdate
  then show ?thesis
    by (simp add: updateParticleColors_def forEachBody_keeps recolor_keeps)
next
  case (FadeInFrame now)
  then show ?thesis
    by (simp add: animateFadeIn_frame)
qed

lemma simRun_frame:
  "world (simRun es s) = world s \<and> leftHandBody (simRun es s) = leftHandBody s
   \<and> rightHandBody (simRun es s) = rightHandBody s
   \<and> (\<forall>r. category (heap (simRun es s) r) = category (heap s r))"
  by (induction es arbitrary: s) (simp_all add: simStep_frame)

text \<open>
  C5. The constructor creates two distinct hand proxies, the only bodies of the hand
  category in the world. Whatever the session does afterwards (calls of
  \<^verbatim>\<open>updateHandPosition\<close>, recolouring, fade-in frames), the world holds the same bodies
  and the same two proxies; a call with index 0 moves the left proxy and leaves the
  right one as it is, a call with index 1 the reverse. \<^verbatim>\<open>destroy\<close> empties the world.
\<close>

theorem hand_proxies_persistent:
  fixes w random now1 now2 es
  defines "s0 \<equiv> LiquidSimulation w random now1 now2"
  defines "s \<equiv> simRun es s0"
  shows "world emptySimulation = []
       \<and> leftHandBody s0 \<noteq> rightHandBody s0
       \<and> filter (\<lambda>r. category (heap s0 r) = handCategory) (world s0)
           = [leftHandBody s0, rightHandBody s0]
       \<and> world s = world s0
       \<and> leftHandBody s = leftHandBody s0
       \<and> rightHandBody s = rightHandBody s0
       \<and> filter (\<lambda>r. category (heap s r) = handCategory) (world s)
           = [leftHandBody s0, rightHandBody s0]
       \<and> (\<forall>x y rnd.
             position (heap (updateHandPosition 0 x y rnd s) (leftHandBody s0)) = (x, y)
           \<and> heap (updateHandPosition 0 x y rnd s) (rightHandBody s0) = heap s (rightHandBody s0)
           \<and> position (heap (updateHandPosition 1 x y rnd s) (rightHandBody s0)) = (x, y)
           \<and> heap (updateHandPosition 1 x y rnd s) (leftHandBody s0) = heap s (leftHandBody s0))
       \<and> world (destroy s) = []"
proof -
  have lr: "leftHandBody s0 = 0" "rightHandBody s0 = 1"
    by (simp_all add: s0_def LiquidSimulation_shape)
  have hands0: "filter (\<lambda>r. category (heap s0 r) = handCategory) (world s0) = [0, 1]"
    unfolding s0_def by (rule LiquidSimulation_hands)
  have frame: "world s = world s0" "leftHandBody s = 0" "rightHandBody s = 1"
    "\<And>r. category (heap s r) = category (heap s0 r)"
    by (simp_all add: s_def simRun_frame lr)
  have c1: "world emptySimulation = []"
    by (simp add: emptySimulation_def)
  have c2: "leftHandBody s0 \<noteq> rightHandBody s0"
    by (simp add: lr)
  have c3: "filter (\<lambda>r. category (heap s0 r) = handCategory) (world s0)
      = [leftHandBody s0, rightHandBody s0]"
    by (simp only: hands0 lr)
  have c4: "leftHandBody s = leftHandBody s0" and c5: "rightHandBody s = rightHandBody s0"
    by (simp_all only: frame lr)
  have c6: "filter (\<lambda>r. category (heap s r) = handCategory) (world s)
      = [leftHandBody s0, rightHandBody s0]"
    by (simp only: frame c3)
  have c7: "position (heap (updateHandPosition 0 x y rnd s) (leftHandBody s0)) = (x, y)
      \<and> heap (updateHandPosition 0 x y rnd s) (rightHandBody s0) = heap s (rightHandBody s0)
      \<and> position (heap (updateHandPosition 1 x y rnd s) (rightHandBody s0)) = (x, y)
      \<and> heap (updateHandPosition 1 x y rnd s) (leftHandBody s0) = heap s (leftHandBody s0)"
    for x y rnd
    by (simp add: updateHandPosition_selected updateHandPosition_other frame lr)
  have c8: "world (destroy s) = []"
    by (simp add: destroy_def)
  from c1 c2 c3 frame(1) c4 c5 c6 c7 c8 show ?thesis
    by blast
qed

theorem hand_proxies_persistent_witness:
  "leftHandBody (LiquidSimulation \<lparr>innerWidth = 1920, innerHeight = 1080\<rparr> (\<lambda>n. 0.5) 0 0) \<noteq> rightHandBody (LiquidSimulation \<lparr>innerWidth = 1920, innerHeight = 1080\<rparr> (\<lambda>n. 0.5) 0 0)
   \<and> world (simRun [HandUpdate 0 100 200 (0.5, 0.5), AfterUpdate, HandUpdate 1 300 400 (0.1, 0.9),
               FadeInFrame 16]
        (LiquidSimulation \<lparr>innerWidth = 1920, innerHeight = 1080\<rparr> (\<lambda>n. 0.5) 0 0))
       = world (LiquidSimulation \<lparr>innerWidth = 1920, innerHeight = 1080\<rparr> (\<lambda>n. 0.5) 0 0)
   \<and> filter (\<lambda>r. category (heap (simRun [HandUpdate 0 100 200 (0.5, 0.5), AfterUpdate,
               HandUpdate 1 300 400 (0.1, 0.9), FadeInFrame 16]
             (LiquidSimulation \<lparr>innerWidth = 1920, innerHeight = 1080\<rparr> (\<lambda>n. 0.5) 0 0)) r) = handCategory)
        (world (simRun [HandUpdate 0 100 200 (0.5, 0.5), AfterUpdate,
               HandUpdate 1 300 400 (0.1, 0.9), FadeInFrame 16]
             (LiquidSimulation \<lparr>innerWidth = 1920, innerHeight = 1080\<rparr> (\<lambda>n. 0.5) 0 0)))
       = [leftHandBody (LiquidSimulation \<lparr>innerWidth = 1920, innerHeight = 1080\<rparr> (\<lambda>n. 0.5) 0 0),
          rightHandBody (LiquidSimulation \<lparr>innerWidth = 1920, innerHeight = 1080\<rparr> (\<lambda>n. 0.5) 0 0)]
   \<and> world (destroy (simRun [HandUpdate 0 100 200 (0.5, 0.5), AfterUpdate,
               HandUpdate 1 300 400 (0.1, 0.9), FadeInFrame 16]
             (LiquidSimulation \<lparr>innerWidth = 1920, innerHeight = 1080\<rparr> (\<lambda>n. 0.5) 0 0))) = []"
  using hand_proxies_persistent [of "\<lparr>innerWidth = 1920, innerHeight = 1080\<rparr>" "\<lambda>n. 0.5" 0 0
      "[HandUpdate 0 100 200 (0.5, 0.5), AfterUpdate, HandUpdate 1 300 400 (0.1, 0.9),
        FadeInFrame 16]"]
  by blast

subsection \<open>Recolouring by speed\<close>

lemma recolor_idem: "recolor (recolor b) = recolor b"
  by (simp add: recolor_def hue_def lightness_def normalizedVelocity_def speed_def
      split: option.splits)

lemma speed_nonneg: "0 \<le> speed b"
  by (simp add: speed_def)

lemma normalizedVelocity_range: "0 \<le> normalizedVelocity b \<and> normalizedVelocity b \<le> 1"
  by (simp add: normalizedVelocity_def maxVelocity_def speed_nonneg)

lemma normalizedVelocity_mono:
  "speed q \<le> speed p \<Longrightarrow> normalizedVelocity q \<le> normalizedVelocity p"
  by (simp add: normalizedVelocity_def maxVelocity_def min_le_iff_disj)

lemma updateParticleColors_particle:
  "r \<in> set (particles s) \<Longrightarrow> heap (updateParticleColors s) r = recolor (heap s r)"
  by (simp add: updateParticleColors_def forEachBody_idem recolor_idem)

text \<open>
  C6. After a recolouring pass, the stroke colour of every particle (that has a render
  style, as every particle the constructor creates has) is given by its velocity at
  that moment alone: with \<open>s = sqrt (vx\<^sup>2 + vy\<^sup>2)\<close> and \<open>n = min (s / 15) 1\<close>, the hue is
  \<open>(1 - n) * 180\<close>, the saturation 100 and the lightness \<open>50 + 20 n\<close>; so hue 180 and
  lightness 50 at rest, hue 0 and lightness 70 at speed 15 or more. Neither the colour
  before the pass nor anything else of the state enters, and the pass changes nothing
  but that colour.
\<close>

theorem recolor_by_speed:
  assumes "r \<in> set (particles s)"
    and "render (heap s r) = Some rd"
    and "velocity (heap s r) = (vx, vy)"
    and "n = min (sqrt (vx * vx + vy * vy) / 15) 1"
  shows "heap (updateParticleColors s) r =
           (heap s r)\<lparr>render := Some (rd\<lparr>strokeStyle := Hsl ((1 - n) * 180) 100 (50 + n * 20)\<rparr>)\<rparr>
       \<and> 0 \<le> (1 - n) * 180 \<and> (1 - n) * 180 \<le> 180
       \<and> 50 \<le> 50 + n * 20 \<and> 50 + n * 20 \<le> 70
       \<and> (vx = 0 \<and> vy = 0 \<longrightarrow> (1 - n) * 180 = 180 \<and> 50 + n * 20 = 50)
       \<and> (15 \<le> sqrt (vx * vx + vy * vy) \<longrightarrow> (1 - n) * 180 = 0 \<and> 50 + n * 20 = 70)"
proof -
  have sp: "speed (heap s r) = sqrt (vx * vx + vy * vy)"
    by (simp add: speed_def assms(3))
  have n: "n = normalizedVelocity (heap s r)"
    by (simp add: normalizedVelocity_def maxVelocity_def sp assms(4))
  have "heap (updateParticleColors s) r = recolor (heap s r)"
    using assms(1) by (rule updateParticleColors_particle)
  then have eq: "heap (updateParticleColors s) r =
      (heap s r)\<lparr>render := Some (rd\<lparr>strokeStyle := Hsl ((1 - n) * 180) 100 (50 + n * 20)\<rparr>)\<rparr>"
    by (simp add: recolor_def assms(2) hue_def saturation_def lightness_def n)
  have range: "0 \<le> n" "n \<le> 1"
    using normalizedVelocity_range [of "heap s r"] by (simp_all add: n)
  have rest: "vx = 0 \<and> vy = 0 \<longrightarrow> n = 0"
    by (simp add: assms(4))
  have cap: "15 \<le> sqrt (vx * vx + vy * vy) \<longrightarrow> n = 1"
    by (simp add: assms(4))
  show ?thesis
    using eq range rest cap by simp
qed

lemma sqrt_3_4: "sqrt (3 * 3 + 4 * 4) = 5"
proof -
  have "sqrt (3 * 3 + 4 * 4) = sqrt (5\<^sup>2)" by simp
  also have "\<dots> = 5" by (simp only: real_sqrt_abs abs_numeral)
  finally show ?thesis .
qed

theorem recolor_by_speed_witness:
  "5 \<in> set (particles (emptySimulation\<lparr>heap := (heap emptySimulation)(5 := (particleAt (100, 50))\<lparr>velocity := (3, 4)\<rparr>), particles := [5]\<rparr>))
   \<and> render (heap (emptySimulation\<lparr>heap := (heap emptySimulation)(5 := (particleAt (100, 50))\<lparr>velocity := (3, 4)\<rparr>), particles := [5]\<rparr>) 5) = Some particleRender
   \<and> velocity (heap (emptySimulation\<lparr>heap := (heap emptySimulation)(5 := (particleAt (100, 50))\<lparr>velocity := (3, 4)\<rparr>), particles := [5]\<rparr>) 5) = (3, 4)
   \<and> heap (updateParticleColors (emptySimulation\<lparr>heap := (heap emptySimulation)(5 := (particleAt (100, 50))\<lparr>velocity := (3, 4)\<rparr>), particles := [5]\<rparr>)) 5 =
       (heap (emptySimulation\<lparr>heap := (heap emptySimulation)(5 := (particleAt (100, 50))\<lparr>velocity := (3, 4)\<rparr>), particles := [5]\<rparr>) 5)\<lparr>render := Some (particleRender\<lparr>strokeStyle := Hsl 120 100 (170 / 3)\<rparr>)\<rparr>"
proof -
  have mem: "5 \<in> set (particles (emptySimulation\<lparr>heap := (heap emptySimulation)(5 := (particleAt (100, 50))\<lparr>velocity := (3, 4)\<rparr>), particles := [5]\<rparr>))"
    by simp
  have rd: "render (heap (emptySimulation\<lparr>heap := (heap emptySimulation)(5 := (particleAt (100, 50))\<lparr>velocity := (3, 4)\<rparr>), particles := [5]\<rparr>) 5) = Some particleRender"
    by (simp add: particleAt_def newBody_def)
  have vel: "velocity (heap (emptySimulation\<lparr>heap := (heap emptySimulation)(5 := (particleAt (100, 50))\<lparr>velocity := (3, 4)\<rparr>), particles := [5]\<rparr>) 5) = (3, 4)"
    by simp
  show ?thesis
    using recolor_by_speed [OF mem rd vel refl] mem rd vel
    by (simp add: sqrt_3_4)
qed

text \<open>
  C7. Of two particles, the one at least as fast as the other is given a hue no
  greater than the other's by the recolouring pass.
\<close>

theorem recolor_monotone:
  assumes "p \<in> set (particles s)" and "q \<in> set (particles s)"
    and "render (heap s p) = Some rp" and "render (heap s q) = Some rq"
    and "speed (heap s q) \<le> speed (heap s p)"
  shows "map_option strokeStyle (render (heap (updateParticleColors s) p)) =
           Some (Hsl (hue (heap s p)) saturation (lightness (heap s p)))
       \<and> map_option strokeStyle (render (heap (updateParticleColors s) q)) =
           Some (Hsl (hue (heap s q)) saturation (lightness (heap s q)))
       \<and> hue (heap s p) \<le> hue (heap s q)
       \<and> hue (heap s p) = (1 - min (speed (heap s p) / 15) 1) * 180
       \<and> hue (heap s q) = (1 - min (speed (heap s q) / 15) 1) * 180"
proof -
  have "hue (heap s p) \<le> hue (heap s q)"
    using normalizedVelocity_mono [OF assms(5)] by (simp add: hue_def)
  then show ?thesis
    using assms(1-4)
    by (simp add: updateParticleColors_particle recolor_def hue_def normalizedVelocity_def
        maxVelocity_def)
qed

theorem recolor_monotone_witness:
  "5 \<in> set (particles (emptySimulation\<lparr>heap := (heap emptySimulation)(5 := (particleAt (100, 50))\<lparr>velocity := (3, 4)\<rparr>, 6 := particleAt (145, 50)), particles := [5, 6]\<rparr>)) \<and> 6 \<in> set (particles (emptySimulation\<lparr>heap := (heap emptySimulation)(5 := (particleAt (100, 50))\<lparr>velocity := (3, 4)\<rparr>, 6 := particleAt (145, 50)), particles := [5, 6]\<rparr>))
   \<and> speed (heap (emptySimulation\<lparr>heap := (heap emptySimulation)(5 := (particleAt (100, 50))\<lparr>velocity := (3, 4)\<rparr>, 6 := particleAt (145, 50)), particles := [5, 6]\<rparr>) 6) = 0 \<and> speed (heap (emptySimulation\<lparr>heap := (heap emptySimulation)(5 := (particleAt (100, 50))\<lparr>velocity := (3, 4)\<rparr>, 6 := particleAt (145, 50)), particles := [5, 6]\<rparr>) 5) = 5
   \<and> speed (heap (emptySimulation\<lparr>heap := (heap emptySimulation)(5 := (particleAt (100, 50))\<lparr>velocity := (3, 4)\<rparr>, 6 := particleAt (145, 50)), particles := [5, 6]\<rparr>) 6) \<le> speed (heap (emptySimulation\<lparr>heap := (heap emptySimulation)(5 := (particleAt (100, 50))\<lparr>velocity := (3, 4)\<rparr>, 6 := particleAt (145, 50)), particles := [5, 6]\<rparr>) 5)
   \<and> map_option strokeStyle (render (heap (updateParticleColors (emptySimulation\<lparr>heap := (heap emptySimulation)(5 := (particleAt (100, 50))\<lparr>velocity := (3, 4)\<rparr>, 6 := particleAt (145, 50)), particles := [5, 6]\<rparr>)) 5)) =
       Some (Hsl 120 100 (170 / 3))
   \<and> map_option strokeStyle (render (heap (updateParticleColors (emptySimulation\<lparr>heap := (heap emptySimulation)(5 := (particleAt (100, 50))\<lparr>velocity := (3, 4)\<rparr>, 6 := particleAt (145, 50)), particles := [5, 6]\<rparr>)) 6)) =
       Some (Hsl 180 100 50)
   \<and> hue (heap (emptySimulation\<lparr>heap := (heap emptySimulation)(5 := (particleAt (100, 50))\<lparr>velocity := (3, 4)\<rparr>, 6 := particleAt (145, 50)), particles := [5, 6]\<rparr>) 5) \<le> hue (heap (emptySimulation\<lparr>heap := (heap emptySimulation)(5 := (particleAt (100, 50))\<lparr>velocity := (3, 4)\<rparr>, 6 := particleAt (145, 50)), particles := [5, 6]\<rparr>) 6)"
proof -
  have mem: "5 \<in> set (particles (emptySimulation\<lparr>heap := (heap emptySimulation)(5 := (particleAt (100, 50))\<lparr>velocity := (3, 4)\<rparr>, 6 := particleAt (145, 50)), particles := [5, 6]\<rparr>))" "6 \<in> set (particles (emptySimulation\<lparr>heap := (heap emptySimulation)(5 := (particleAt (100, 50))\<lparr>velocity := (3, 4)\<rparr>, 6 := particleAt (145, 50)), particles := [5, 6]\<rparr>))"
    by simp_all
  have rd: "render (heap (emptySimulation\<lparr>heap := (heap emptySimulation)(5 := (particleAt (100, 50))\<lparr>velocity := (3, 4)\<rparr>, 6 := particleAt (145, 50)), particles := [5, 6]\<rparr>) 5) = Some particleRender" "render (heap (emptySimulation\<lparr>heap := (heap emptySimulation)(5 := (particleAt (100, 50))\<lparr>velocity := (3, 4)\<rparr>, 6 := particleAt (145, 50)), particles := [5, 6]\<rparr>) 6) = Some particleRender"
    by (simp_all add: particleAt_def newBody_def)
  have sp: "speed (heap (emptySimulation\<lparr>heap := (heap emptySimulation)(5 := (particleAt (100, 50))\<lparr>velocity := (3, 4)\<rparr>, 6 := particleAt (145, 50)), particles := [5, 6]\<rparr>) 6) = 0" "speed (heap (emptySimulation\<lparr>heap := (heap emptySimulation)(5 := (particleAt (100, 50))\<lparr>velocity := (3, 4)\<rparr>, 6 := particleAt (145, 50)), particles := [5, 6]\<rparr>) 5) = 5"
    by (simp_all add: speed_def particleAt_def newBody_def sqrt_3_4)
  have le: "speed (heap (emptySimulation\<lparr>heap := (heap emptySimulation)(5 := (particleAt (100, 50))\<lparr>velocity := (3, 4)\<rparr>, 6 := particleAt (145, 50)), particles := [5, 6]\<rparr>) 6) \<le> speed (heap (emptySimulation\<lparr>heap := (heap emptySimulation)(5 := (particleAt (100, 50))\<lparr>velocity := (3, 4)\<rparr>, 6 := particleAt (145, 50)), particles := [5, 6]\<rparr>) 5)"
    using sp by simp
  have col: "hue (heap (emptySimulation\<lparr>heap := (heap emptySimulation)(5 := (particleAt (100, 50))\<lparr>velocity := (3, 4)\<rparr>, 6 := particleAt (145, 50)), particles := [5, 6]\<rparr>) 5) = 120" "lightness (heap (emptySimulation\<lparr>heap := (heap emptySimulation)(5 := (particleAt (100, 50))\<lparr>velocity := (3, 4)\<rparr>, 6 := particleAt (145, 50)), particles := [5, 6]\<rparr>) 5) = 170 / 3"
    "hue (heap (emptySimulation\<lparr>heap := (heap emptySimulation)(5 := (particleAt (100, 50))\<lparr>velocity := (3, 4)\<rparr>, 6 := particleAt (145, 50)), particles := [5, 6]\<rparr>) 6) = 180" "lightness (heap (emptySimulation\<lparr>heap := (heap emptySimulation)(5 := (particleAt (100, 50))\<lparr>velocity := (3, 4)\<rparr>, 6 := particleAt (145, 50)), particles := [5, 6]\<rparr>) 6) = 50"
    using sp by (simp_all add: hue_def lightness_def normalizedVelocity_def maxVelocity_def)
  show ?thesis
    using recolor_monotone [OF mem rd le] mem sp le
    by (simp only: col saturation_def) simp
qed

section \<open>Properties of the tracking component\<close>








subsection \<open>Teardown after an error\<close>

lemma attached_useEffect: "attached (useEffect c)"
  by (simp add: attached_def useEffect_def)

lemma attached_step:
  assumes "attached s" and "e \<noteq> RefsDetached" and "e \<noteq> Teardown"
  shows "attached (step e s)"
  using assms
  by (cases e)
     (auto simp add: attached_def failWith_def cameraGranted_def cameraReady_def handsReady_def
        onResults_def processFrame_def sendDone_def Let_def split: stage.splits option.splits)

lemma attached_run:
  assumes "attached s" and "RefsDetached \<notin> set es" and "Teardown \<notin> set es"
  shows "attached (run es s)"
  using assms
proof (induction es arbitrary: s)
  case Nil
  then show ?case by simp
next
  case (Cons e es)
  from Cons.prems have "attached (step e s)"
    by (auto intro: attached_step)
  with Cons show ?case by simp
qed

text \<open>
  While the video element stays attached, a teardown after any error stops every track
  that was acquired.
\<close>

lemma teardown_after_error_attached:
  assumes "RefsDetached \<notin> set es" and "Teardown \<notin> set es"
    and "error (run es (useEffect c)) \<noteq> None"
  shows "leaked (step Teardown (run es (useEffect c))) = []"
proof -
  let ?s = "run es (useEffect c)"
  have "attached ?s"
    using attached_useEffect assms(1,2) by (rule attached_run)
  with assms(3) have "stage ?s = Returned" and "stopped ?s = []"
    and "streamRef ?s = Some (acquired ?s) \<or> (acquired ?s = [] \<and> streamRef ?s = None)"
    by (auto simp add: attached_def split: stage.splits)
  then show ?thesis
    by (auto simp add: leaked_def cleanup_def Let_def)
qed

text \<open>
  C9 fails on one path. The cleanup stops the tracks of the stream held by
  \<^verbatim>\<open>streamRef\<close> and nothing else. When \<^verbatim>\<open>getUserMedia\<close> grants a stream and the video
  element is gone by then, \<^verbatim>\<open>setupCamera\<close> throws after the stream was acquired and
  before it is stored: the component shows the camera error, and the teardown that
  follows stops no track.
\<close>

theorem teardown_leaks_unstored_stream:
  "error (run [TimerFires, ScriptLoaded, RefsDetached, CameraGranted [7]] (useEffect \<lparr>width = 640, height = 480, context2d = True\<rparr>))
     = Some ''Camera access failed: Video element not found''
   \<and> streamRef (run [TimerFires, ScriptLoaded, RefsDetached, CameraGranted [7]] (useEffect \<lparr>width = 640, height = 480, context2d = True\<rparr>))
     = None
   \<and> acquired (run [TimerFires, ScriptLoaded, RefsDetached, CameraGranted [7], Teardown]
        (useEffect \<lparr>width = 640, height = 480, context2d = True\<rparr>)) = [7]
   \<and> stopped (run [TimerFires, ScriptLoaded, RefsDetached, CameraGranted [7], Teardown]
        (useEffect \<lparr>width = 640, height = 480, context2d = True\<rparr>)) = []
   \<and> leaked (run [TimerFires, ScriptLoaded, RefsDetached, CameraGranted [7], Teardown]
        (useEffect \<lparr>width = 640, height = 480, context2d = True\<rparr>)) = [7]"
  by (simp add: useEffect_def cameraGranted_def failWith_def cleanup_def leaked_def Let_def)

theorem teardown_leaks_unstored_stream_witness:
  "leaked (run [TimerFires, ScriptLoaded, RefsDetached, CameraGranted [7], Teardown]
     (useEffect \<lparr>width = 640, height = 480, context2d = True\<rparr>)) \<noteq> []"
  using teardown_leaks_unstored_stream by simp

end
